theory Spec2Isabelle
  imports Complex_Main
begin

section \<open>Rewrap: option resolution, edit synthesis and the command boundary (Main.ts)\<close>

subsection \<open>JavaScript values as the settings lookup returns them\<close>

text \<open>
  A JavaScript number is a finite double, \<open>NaN\<close> or an infinity. Every finite double is a
  rational, so a finite number is a \<^typ>\<open>rat\<close>; negative zero is identified with zero, which
  no operation used by Main.ts tells apart (both are falsy, integers and smaller than 1).
\<close>

datatype jsnum = Fin rat | NaN | PosInf | NegInf

text \<open>
  The values \<open>workspace.getConfiguration(..).get(..)\<close> and \<open>editor.options.tabSize\<close> can
  yield: \<open>undefined\<close> for a missing key, and the scalars, strings and arrays of a settings
  file. Object-valued settings are outside this model.
\<close>

datatype jsval =
    JUndefined
  | JNull
  | JBool bool
  | JNum jsnum
  | JStr string
  | JArr "jsval list"

datatype error = TypeError | IllegalArgument | Thrown string

text \<open>Truthiness, as \<open>||\<close>, \<open>&&\<close> and \<open>if\<close> test it.\<close>

fun ToBoolean :: "jsval \<Rightarrow> bool" where
  "ToBoolean JUndefined = False"
| "ToBoolean JNull = False"
| "ToBoolean (JBool b) = b"
| "ToBoolean (JNum (Fin q)) = (q \<noteq> 0)"
| "ToBoolean (JNum NaN) = False"
| "ToBoolean (JNum PosInf) = True"
| "ToBoolean (JNum NegInf) = True"
| "ToBoolean (JStr s) = (s \<noteq> [])"
| "ToBoolean (JArr xs) = True"

text \<open>
  Numeric coercion. On \<open>undefined\<close>, \<open>null\<close>, booleans, numbers and the empty string
  it is fixed by the language. On other strings and on arrays it parses a numeric literal
  and rounds it to a double; that part is the parameter \<open>coerce\<close>, about which nothing is
  assumed.
\<close>

fun ToNumber :: "(jsval \<Rightarrow> jsnum) \<Rightarrow> jsval \<Rightarrow> jsnum" where
  "ToNumber coerce JUndefined = NaN"
| "ToNumber coerce JNull = Fin 0"
| "ToNumber coerce (JBool b) = Fin (if b then 1 else 0)"
| "ToNumber coerce (JNum n) = n"
| "ToNumber coerce (JStr s) = (if s = [] then Fin 0 else coerce (JStr s))"
| "ToNumber coerce (JArr xs) = coerce (JArr xs)"

text \<open>\<open>a < b\<close> on numbers: false as soon as one side is \<open>NaN\<close>.\<close>

fun num_less :: "jsnum \<Rightarrow> jsnum \<Rightarrow> bool" where
  "num_less NaN _ = False"
| "num_less _ NaN = False"
| "num_less (Fin a) (Fin b) = (a < b)"
| "num_less (Fin a) PosInf = True"
| "num_less (Fin a) NegInf = False"
| "num_less PosInf _ = False"
| "num_less NegInf NegInf = False"
| "num_less NegInf _ = True"

text \<open>
  \<open>a < b\<close> and \<open>a > b\<close> where one operand is a number, which is every comparison of
  Main.ts (the other operand is a literal or a quotient): both sides are coerced to numbers.
\<close>

definition js_less :: "(jsval \<Rightarrow> jsnum) \<Rightarrow> jsval \<Rightarrow> jsval \<Rightarrow> bool" where
  "js_less coerce a b = num_less (ToNumber coerce a) (ToNumber coerce b)"

definition js_greater :: "(jsval \<Rightarrow> jsnum) \<Rightarrow> jsval \<Rightarrow> jsval \<Rightarrow> bool" where
  "js_greater coerce a b = num_less (ToNumber coerce b) (ToNumber coerce a)"

text \<open>\<open>x / 2\<close>. Halving is exact on every integer double from 1 on, the only values it meets
  after sanitization.\<close>

fun num_half :: "jsnum \<Rightarrow> jsnum" where
  "num_half (Fin q) = Fin (q / 2)"
| "num_half NaN = NaN"
| "num_half PosInf = PosInf"
| "num_half NegInf = NegInf"

definition js_half :: "(jsval \<Rightarrow> jsnum) \<Rightarrow> jsval \<Rightarrow> jsval" where
  "js_half coerce a = JNum (num_half (ToNumber coerce a))"

text \<open>\<open>Number.isInteger(v)\<close>: a finite number without fractional part; false on every
  value that is not a number.\<close>

fun Number_isInteger :: "jsval \<Rightarrow> bool" where
  "Number_isInteger (JNum (Fin q)) = (of_int \<lfloor>q\<rfloor> = q)"
| "Number_isInteger _ = False"

text \<open>\<open>a && b\<close> on values already computed.\<close>

definition js_and :: "jsval \<Rightarrow> jsval \<Rightarrow> jsval" where
  "js_and a b = (if ToBoolean a then b else a)"

text \<open>
  \<open>a || b\<close> where evaluating an operand may throw: the right operand is looked at only
  when the left one is falsy, so an exception of the right operand is lost when the left
  one is truthy.
\<close>

definition or_else :: "error + jsval \<Rightarrow> error + jsval \<Rightarrow> error + jsval" where
  "or_else a b = (case a of Inl e \<Rightarrow> Inl e | Inr x \<Rightarrow> if ToBoolean x then Inr x else b)"

text \<open>
  \<open>v[0]\<close>: a \<open>TypeError\<close> on \<open>undefined\<close> and \<open>null\<close>; the first element of an array
  and the first character of a string, \<open>undefined\<close> when there is none; \<open>undefined\<close> on
  numbers and booleans.
\<close>

fun index0 :: "jsval \<Rightarrow> error + jsval" where
  "index0 JUndefined = Inl TypeError"
| "index0 JNull = Inl TypeError"
| "index0 (JArr []) = Inr JUndefined"
| "index0 (JArr (x # xs)) = Inr x"
| "index0 (JStr []) = Inr JUndefined"
| "index0 (JStr (c # cs)) = Inr (JStr [c])"
| "index0 (JBool b) = Inr JUndefined"
| "index0 (JNum n) = Inr JUndefined"

subsection \<open>Settings, editor and options\<close>

text \<open>
  What the four \<open>workspace.getConfiguration(..).get(..)\<close> calls return: the value the
  user has set for the key, or the default the key is declared with when the user has set
  none (lines 178 to 179 name the default 300 of the editor's column), or \<open>undefined\<close>
  when there is neither.
\<close>

record config =
  rewrap_wrappingColumn :: jsval
  rewrap_doubleSentenceSpacing :: jsval
  editor_rulers :: jsval
  editor_wrappingColumn :: jsval

record WrappingOptions =
  wrappingColumn :: jsval
  tabSize :: jsval
  doubleSentenceSpacing :: jsval

text \<open>
  A text document is its lines: \<open>lineCount\<close> and \<open>lineAt(i).text\<close>. The interface
  \<open>TextEditorLike\<close> of lines 120 to 125: the document, the selections (of a type the code
  only passes on) and \<open>options.tabSize\<close>; its method \<open>edit\<close> belongs to the host below.
\<close>

record document =
  docLines :: "string list"

definition lineCount :: "document \<Rightarrow> nat" where
  "lineCount d = length (docLines d)"

definition lineAt :: "document \<Rightarrow> nat \<Rightarrow> string" where
  "lineAt d i = docLines d ! i"

record 'sel TextEditorLike =
  document :: document
  selections :: "'sel list"
  options_tabSize :: jsval

text \<open>The messages written to the console and shown to the user.\<close>

datatype message =
    WarnInvalidWrappingColumn jsval
  | WarnLargeWrappingColumn jsval
  | WarnInvalidTabSize jsval
  | WarnTabSizeAgainstColumn jsval jsval
  | ErrorSomethingHappened
  | LogError error
  | ErrorPleaseReport
  | InfoSorry

subsection \<open>getWrappingColumn\<close>

text \<open>
  The initialiser of \<open>wrappingColumn\<close> (lines 175 to 181):
  \<open>extensionColumn || rulers[0] || (0 < editorColumn && editorColumn < 300) && editorColumn || 80\<close>,
  where \<open>&&\<close> binds tighter than \<open>||\<close>.
\<close>

definition chosenColumn :: "(jsval \<Rightarrow> jsnum) \<Rightarrow> config \<Rightarrow> error + jsval" where
  "chosenColumn coerce c =
     (let extensionColumn = rewrap_wrappingColumn c;
          rulers = editor_rulers c;
          editorColumn = editor_wrappingColumn c
      in or_else
           (or_else
              (or_else (Inr extensionColumn) (index0 rulers))
              (Inr (js_and
                      (js_and (JBool (js_less coerce (JNum (Fin 0)) editorColumn))
                              (JBool (js_less coerce editorColumn (JNum (Fin 300)))))
                      editorColumn)))
           (Inr (JNum (Fin 80))))"

text \<open>The sanitization of lines 183 to 196, with the warnings it writes.\<close>

definition sanitizeColumn :: "(jsval \<Rightarrow> jsnum) \<Rightarrow> jsval \<Rightarrow> jsval \<times> message list" where
  "sanitizeColumn coerce w =
     (if \<not> Number_isInteger w \<or> js_less coerce w (JNum (Fin 1))
      then (JNum (Fin 80), [WarnInvalidWrappingColumn w])
      else if js_greater coerce w (JNum (Fin 120))
      then (w, [WarnLargeWrappingColumn w])
      else (w, []))"

definition getWrappingColumn :: "(jsval \<Rightarrow> jsnum) \<Rightarrow> config \<Rightarrow> error + jsval \<times> message list" where
  "getWrappingColumn coerce c =
     (case chosenColumn coerce c of
        Inl e \<Rightarrow> Inl e
      | Inr w \<Rightarrow> Inr (sanitizeColumn coerce w))"

subsection \<open>getTabSize\<close>

definition getTabSize ::
  "(jsval \<Rightarrow> jsnum) \<Rightarrow> 'sel TextEditorLike \<Rightarrow> jsval \<Rightarrow> jsval \<times> message list" where
  "getTabSize coerce editor wrappingColumn' =
     (let t = options_tabSize editor;
          (tabSize', warned) =
            (if \<not> Number_isInteger t \<or> js_less coerce t (JNum (Fin 1))
             then (JNum (Fin 4), [WarnInvalidTabSize t])
             else (t, []))
      in if js_greater coerce tabSize' (js_half coerce wrappingColumn')
         then (tabSize', warned @ [WarnTabSizeAgainstColumn tabSize' wrappingColumn'])
         else (tabSize', warned))"

subsection \<open>getOptionsFromEnvironment\<close>

definition getOptionsFromEnvironment ::
  "(jsval \<Rightarrow> jsnum) \<Rightarrow> config \<Rightarrow> 'sel TextEditorLike \<Rightarrow>
     error + WrappingOptions \<times> message list" where
  "getOptionsFromEnvironment coerce c editor =
     (case getWrappingColumn coerce c of
        Inl e \<Rightarrow> Inl e
      | Inr (wrappingColumn', warned1) \<Rightarrow>
          (let (tabSize', warned2) = getTabSize coerce editor wrappingColumn'
           in Inr (\<lparr> wrappingColumn = wrappingColumn',
                      tabSize = tabSize',
                      doubleSentenceSpacing = rewrap_doubleSentenceSpacing c \<rparr>,
                   warned1 @ warned2)))"

subsection \<open>Edits and their application\<close>

text \<open>Sequencing of steps that may throw: the first exception ends the computation.\<close>

definition bindE :: "error + 'a \<Rightarrow> ('a \<Rightarrow> error + 'b) \<Rightarrow> error + 'b" where
  "bindE m f = (case m of Inl e \<Rightarrow> Inl e | Inr x \<Rightarrow> f x)"

text \<open>
  Modelled from the spec: the type \<open>Edit\<close> is declared in DocumentProcessor.ts, which is
  not among the sources; Main.ts reads its fields \<open>startLine\<close>, \<open>endLine\<close> and
  \<open>lines\<close>, and the specification gives them as two integers and a sequence of strings.
\<close>

record Edit =
  startLine :: int
  endLine :: int
  lines :: "string list"

text \<open>
  A range of the editor: start line, start character, end line, end character. Its
  constructor \<open>new Range(startLine, startCharacter, endLine, endCharacter)\<close> builds the
  start position and then the end position, throws on a negative line or character, and
  swaps the two positions unless the start lies before the end.
\<close>

datatype range = RangeFromTo int int int int

definition isBefore :: "int \<times> int \<Rightarrow> int \<times> int \<Rightarrow> bool" where
  "isBefore p q = (fst p < fst q \<or> (fst p = fst q \<and> snd p < snd q))"

definition new_Range :: "int \<Rightarrow> int \<Rightarrow> int \<Rightarrow> int \<Rightarrow> error + range" where
  "new_Range startLine' startCharacter endLine' endCharacter =
     (if startLine' < 0 \<or> startCharacter < 0 \<or> endLine' < 0 \<or> endCharacter < 0
      then Inl IllegalArgument
      else if isBefore (startLine', startCharacter) (endLine', endCharacter)
      then Inr (RangeFromTo startLine' startCharacter endLine' endCharacter)
      else Inr (RangeFromTo endLine' endCharacter startLine' startCharacter))"

text \<open>\<open>Number.MAX_VALUE\<close>, the largest finite double; it is an integer.\<close>

definition Number_MAX_VALUE :: int where
  "Number_MAX_VALUE = (2 ^ 53 - 1) * 2 ^ 971"

text \<open>\<open>xs.join(sep)\<close> on an array of strings.\<close>

fun join :: "string \<Rightarrow> string list \<Rightarrow> string" where
  "join sep [] = []"
| "join sep [x] = x"
| "join sep (x # y # ys) = x @ sep @ join sep (y # ys)"

text \<open>
  The editor host: \<open>document.validateRange\<close>, and \<open>editor.edit\<close>, which hands an edit
  builder to its callback, then applies what the callback recorded and returns a promise;
  an exception of the callback leaves \<open>editor.edit\<close> before anything is applied.
  The promise is rejected with an error or resolved with a boolean; the host also decides
  what the document is afterwards. Both are parameters.
\<close>

record host =
  validateRange :: "document \<Rightarrow> range \<Rightarrow> range"
  edit :: "document \<Rightarrow> (range \<times> string) list \<Rightarrow> (error + bool) \<times> document"

text \<open>An edit builder is the list of the replacements recorded so far.\<close>

definition replace :: "(range \<times> string) list \<Rightarrow> range \<Rightarrow> string \<Rightarrow> (range \<times> string) list" where
  "replace builder r text' = builder @ [(r, text')]"

text \<open>
  Lines 73 to 83. \<open>forEach\<close> visits the edits from the left; an exception of the range
  constructor leaves it, and the replacements recorded before are never applied.
\<close>

fun applyEdits ::
  "host \<Rightarrow> Edit list \<Rightarrow> document \<Rightarrow> (range \<times> string) list \<Rightarrow>
     error + (range \<times> string) list" where
  "applyEdits h [] d builder = Inr builder"
| "applyEdits h (e # edits) d builder =
     bindE (new_Range (startLine e) 0 (endLine e) Number_MAX_VALUE) (\<lambda>constructed.
       let range' = validateRange h d constructed;
           text' = join [CHR 0x0A] (lines e)
       in applyEdits h edits d (replace builder range' text'))"

subsection \<open>getEditsAndSelections\<close>

text \<open>
  The modules Main.ts imports and that are not among the sources are parameters; each of
  their functions either returns or throws. Sections are of a type the code only passes on.
\<close>

record 'sec Sections =
  primary :: "'sec list"
  secondary :: "'sec list"

record 'sec DocumentProcessor =
  findSections :: "string list \<Rightarrow> jsval \<Rightarrow> error + 'sec Sections"
  editSection :: "WrappingOptions \<Rightarrow> 'sec \<Rightarrow> error + Edit"

record ('sec, 'sel) modules =
  fromDocument :: "document \<Rightarrow> error + 'sec DocumentProcessor"
  sectionsInSelections :: "'sec list \<Rightarrow> 'sec list \<Rightarrow> 'sel list \<Rightarrow> error + 'sec list"
  adjustSelections :: "string list \<Rightarrow> 'sel list \<Rightarrow> Edit list \<Rightarrow> error + 'sel list"

text \<open>\<open>xs.map(f)\<close> with a callback that may throw: the elements are visited from the left
  and the first exception leaves \<open>map\<close>; nothing catches it there.\<close>

fun mapE :: "('a \<Rightarrow> error + 'b) \<Rightarrow> 'a list \<Rightarrow> error + 'b list" where
  "mapE f [] = Inr []"
| "mapE f (x # xs) = bindE (f x) (\<lambda>y. bindE (mapE f xs) (\<lambda>ys. Inr (y # ys)))"

definition getEditsAndSelections ::
  "('sec, 'sel) modules \<Rightarrow> 'sec DocumentProcessor \<Rightarrow> string list \<Rightarrow> 'sel list \<Rightarrow>
     WrappingOptions \<Rightarrow> error + Edit list \<times> 'sel list" where
  "getEditsAndSelections m documentProcessor documentLines selections' options =
     bindE (findSections documentProcessor documentLines (tabSize options)) (\<lambda>sections.
     bindE (sectionsInSelections m (primary sections) (secondary sections) selections')
       (\<lambda>sectionsToEdit.
     bindE (mapE (editSection documentProcessor options) sectionsToEdit) (\<lambda>edits.
     bindE (adjustSelections m documentLines selections' edits) (\<lambda>adjustedSelections.
     Inr (edits, adjustedSelections)))))"

subsection \<open>wrapSomething\<close>

text \<open>
  \<open>wrapSomething\<close> is an \<open>async\<close> function: a call never throws, it returns a promise,
  and an exception raised in its body rejects that promise. Its body runs up to the
  \<open>await\<close> of \<open>editor.edit\<close>; it goes on after it only once the host has resolved that
  promise, and a rejection is rethrown at the \<open>await\<close>. The run is recorded as the
  settled promise, the editor at the end, and the events in the order they happen.
\<close>

datatype 'sel event =
    EditSubmitted "(range \<times> string) list"
  | EditResolved bool
  | EditRejected error
  | SelectionsAssigned "'sel list"

record 'sel run =
  settled :: "error + unit"
  final :: "'sel TextEditorLike"
  trace :: "'sel event list"

text \<open>Lines 57 to 65: everything before the call of \<open>editor.edit\<close>.\<close>

definition beforeEdit ::
  "('sec, 'sel) modules \<Rightarrow> 'sel TextEditorLike \<Rightarrow> WrappingOptions \<Rightarrow>
     error + Edit list \<times> 'sel list" where
  "beforeEdit m editor options =
     bindE (fromDocument m (document editor)) (\<lambda>documentProcessor.
       let documentLines =
             map (\<lambda>i. lineAt (document editor) i) [0 ..< lineCount (document editor)]
       in getEditsAndSelections m documentProcessor documentLines (selections editor) options)"

text \<open>Line 69, the continuation of the \<open>await\<close>, given how the host settled the promise.\<close>

definition afterEdit ::
  "error + bool \<Rightarrow> 'sel list \<Rightarrow> 'sel TextEditorLike \<Rightarrow> 'sel event list \<Rightarrow> 'sel run" where
  "afterEdit result newSelections editor events =
     (case result of
        Inl e \<Rightarrow>
          \<lparr> settled = Inl e, final = editor, trace = events @ [EditRejected e] \<rparr>
      | Inr ok \<Rightarrow>
          \<lparr> settled = Inr (),
            final = editor \<lparr> selections := newSelections \<rparr>,
            trace = events @ [EditResolved ok, SelectionsAssigned newSelections] \<rparr>)"

definition wrapSomething ::
  "('sec, 'sel) modules \<Rightarrow> host \<Rightarrow> 'sel TextEditorLike \<Rightarrow> WrappingOptions \<Rightarrow> 'sel run" where
  "wrapSomething m h editor options =
     (case beforeEdit m editor options of
        Inl e \<Rightarrow> \<lparr> settled = Inl e, final = editor, trace = [] \<rparr>
      | Inr (edits, newSelections) \<Rightarrow>
          (case applyEdits h edits (document editor) [] of
             Inl e \<Rightarrow> \<lparr> settled = Inl e, final = editor, trace = [] \<rparr>
           | Inr submitted \<Rightarrow>
               (let (result, document') = edit h (document editor) submitted
                in afterEdit result newSelections (editor \<lparr> document := document' \<rparr>)
                     [EditSubmitted submitted])))"

subsection \<open>The command registered by activate\<close>

text \<open>
  The callback of lines 25 to 46. Its \<open>try\<close> block calls \<open>getOptionsFromEnvironment\<close>,
  which may throw, and returns the promise of \<open>wrapSomething\<close> without awaiting it; the
  \<open>catch\<close> block therefore runs exactly when \<open>getOptionsFromEnvironment\<close> throws.
\<close>

datatype returned = ReturnedNull | ReturnedPromise "error + unit"

record 'sel invocation =
  result :: returned
  console :: "message list"
  shown :: "message list"
  editorAfter :: "'sel TextEditorLike"
  events :: "'sel event list"

definition rewrapComment ::
  "(jsval \<Rightarrow> jsnum) \<Rightarrow> ('sec, 'sel) modules \<Rightarrow> host \<Rightarrow> config \<Rightarrow> 'sel TextEditorLike \<Rightarrow>
     'sel invocation" where
  "rewrapComment coerce m h c editor =
     (case getOptionsFromEnvironment coerce c editor of
        Inl err \<Rightarrow>
          \<lparr> result = ReturnedNull,
            console = [ErrorSomethingHappened, LogError err, ErrorPleaseReport],
            shown = [InfoSorry],
            editorAfter = editor,
            events = [] \<rparr>
      | Inr (options, warned) \<Rightarrow>
          (let r = wrapSomething m h editor options
           in \<lparr> result = ReturnedPromise (settled r),
                console = warned,
                shown = [],
                editorAfter = final r,
                events = trace r \<rparr>))"

subsection \<open>Notions used to state the properties\<close>

text \<open>A positive integer, as the specification words the range of both numeric options.\<close>

fun isPositiveInteger :: "jsval \<Rightarrow> bool" where
  "isPositiveInteger (JNum (Fin q)) = (of_int \<lfloor>q\<rfloor> = q \<and> 1 \<le> q)"
| "isPositiveInteger _ = False"

text \<open>
  The precedence in the words of the specification, "first defined wins": the extension
  setting, then the first ruler, then the editor's column if it lies in (0, 300), then 80,
  where a value is defined when it is not \<open>undefined\<close>.
\<close>

definition firstDefinedColumn :: "(jsval \<Rightarrow> jsnum) \<Rightarrow> config \<Rightarrow> jsval" where
  "firstDefinedColumn coerce c =
     (let firstRuler = (case editor_rulers c of JArr (r # rs) \<Rightarrow> r | _ \<Rightarrow> JUndefined)
      in if rewrap_wrappingColumn c \<noteq> JUndefined then rewrap_wrappingColumn c
         else if firstRuler \<noteq> JUndefined then firstRuler
         else if js_less coerce (JNum (Fin 0)) (editor_wrappingColumn c)
               \<and> js_less coerce (editor_wrappingColumn c) (JNum (Fin 300))
         then editor_wrappingColumn c
         else JNum (Fin 80))"

text \<open>
  Modelled from the spec: the default the setting \<open>rewrap.doubleSentenceSpacing\<close> is
  declared with is in package.json, which is not among the sources; the specification
  gives it as \<open>false\<close>. The lookup returns the user's value when there is one and the
  declared default otherwise.
\<close>

definition lookup_doubleSentenceSpacing :: "jsval option \<Rightarrow> jsval" where
  "lookup_doubleSentenceSpacing setting =
     (case setting of None \<Rightarrow> JBool False | Some v \<Rightarrow> v)"

text \<open>
  The failure policy in the words of the specification: a section the wrapper fails on is
  skipped and the edits of the other sections are kept.
\<close>

definition synthesizeSkipping :: "('sec \<Rightarrow> error + Edit) \<Rightarrow> 'sec list \<Rightarrow> Edit list" where
  "synthesizeSkipping wrap sections =
     List.map_filter (\<lambda>s. case wrap s of Inl e \<Rightarrow> None | Inr ed \<Rightarrow> Some ed) sections"

subsection \<open>Concrete inputs\<close>

text \<open>A coercion under which no string or array reads as a number.\<close>

definition noCoerce :: "jsval \<Rightarrow> jsnum" where
  "noCoerce v = NaN"

text \<open>
  The document of the specification's end-to-end example, with a caret at the start of its
  third line; sections are pairs of line numbers and selections are carets (line, character).
\<close>

definition exampleEditor :: "(nat \<times> nat) TextEditorLike" where
  "exampleEditor =
     \<lparr> document = \<lparr> docLines = [''// a short'', ''// comment'', ''code();''] \<rparr>,
       selections = [(2, 0)],
       options_tabSize = JNum (Fin 4) \<rparr>"

definition exampleProcessor :: "(nat \<times> nat) DocumentProcessor" where
  "exampleProcessor =
     \<lparr> findSections = (\<lambda>ls ts. Inr \<lparr> primary = [(0, 1)], secondary = [] \<rparr>),
       editSection = (\<lambda>opts s.
         Inr \<lparr> startLine = int (fst s), endLine = int (snd s),
               lines = [''// a short comment''] \<rparr>) \<rparr>"

definition exampleModules :: "(nat \<times> nat, nat \<times> nat) modules" where
  "exampleModules =
     \<lparr> fromDocument = (\<lambda>d. Inr exampleProcessor),
       sectionsInSelections = (\<lambda>prim sec sels. Inr prim),
       adjustSelections = (\<lambda>ls sels edits. Inr [(1, 0)]) \<rparr>"

text \<open>A processor for which every line of that document is a section of its own and whose
  wrapper throws on the middle one.\<close>

definition brokenProcessor :: "(nat \<times> nat) DocumentProcessor" where
  "brokenProcessor =
     \<lparr> findSections = (\<lambda>ls ts. Inr \<lparr> primary = [(0, 0), (1, 1), (2, 2)], secondary = [] \<rparr>),
       editSection = (\<lambda>opts s.
         if s = (1, 1) then Inl (Thrown ''malformed section'')
         else Inr \<lparr> startLine = int (fst s), endLine = int (snd s), lines = [''wrapped''] \<rparr>) \<rparr>"

definition brokenModules :: "(nat \<times> nat, nat \<times> nat) modules" where
  "brokenModules =
     \<lparr> fromDocument = (\<lambda>d. Inr brokenProcessor),
       sectionsInSelections = (\<lambda>prim sec sels. Inr prim),
       adjustSelections = (\<lambda>ls sels edits. Inr sels) \<rparr>"

text \<open>
  A host whose \<open>validateRange\<close> moves a position into the document, as the editor's does,
  and whose \<open>edit\<close> refuses every batch: it resolves with \<open>false\<close> and keeps the document.
\<close>

definition clampPosition :: "document \<Rightarrow> int \<Rightarrow> int \<Rightarrow> int \<times> int" where
  "clampPosition d line' character =
     (if line' < 0 then (0, 0)
      else if int (lineCount d) \<le> line'
      then (int (lineCount d) - 1, int (length (lineAt d (lineCount d - 1))))
      else (line', max 0 (min character (int (length (lineAt d (nat line')))))))"

definition clampRange :: "document \<Rightarrow> range \<Rightarrow> range" where
  "clampRange d r =
     (case r of RangeFromTo sl sc el ec \<Rightarrow>
        (let (sl', sc') = clampPosition d sl sc;
             (el', ec') = clampPosition d el ec
         in RangeFromTo sl' sc' el' ec'))"

definition refusingHost :: host where
  "refusingHost = \<lparr> validateRange = clampRange, edit = (\<lambda>d rs. (Inr False, d)) \<rparr>"

text \<open>Options as a resolution returns them, for the examples of the edit pipeline.\<close>

definition exampleOptions :: WrappingOptions where
  "exampleOptions =
     \<lparr> wrappingColumn = JNum (Fin 20), tabSize = JNum (Fin 4),
       doubleSentenceSpacing = JBool False \<rparr>"

section \<open>Properties of the option resolution\<close>

subsection \<open>Auxiliary facts\<close>

lemma sanitize_guard:
  "(\<not> Number_isInteger w \<or> js_less coerce w (JNum (Fin 1))) = (\<not> isPositiveInteger w)"
  by (cases w rule: isPositiveInteger.cases) (auto simp: js_less_def)

lemma positive_truthy: "js_less coerce (JNum (Fin 0)) v \<Longrightarrow> ToBoolean v"
  by (cases v rule: ToBoolean.cases) (auto simp: js_less_def split: if_splits)

lemma fst_sanitizeColumn:
  "fst (sanitizeColumn coerce w) = (if isPositiveInteger w then w else JNum (Fin 80))"
  using sanitize_guard[of w coerce] by (auto simp: sanitizeColumn_def)

lemma fst_getTabSize:
  "fst (getTabSize coerce editor wc) =
     (if isPositiveInteger (options_tabSize editor) then options_tabSize editor else JNum (Fin 4))"
  using sanitize_guard[of "options_tabSize editor" coerce]
  by (auto simp: getTabSize_def Let_def split: prod.splits)

lemma chosenColumn_cases:
  "chosenColumn coerce c =
     (if ToBoolean (rewrap_wrappingColumn c) then Inr (rewrap_wrappingColumn c)
      else case index0 (editor_rulers c) of
             Inl e \<Rightarrow> Inl e
           | Inr r \<Rightarrow>
               if ToBoolean r then Inr r
               else if js_less coerce (JNum (Fin 0)) (editor_wrappingColumn c)
                     \<and> js_less coerce (editor_wrappingColumn c) (JNum (Fin 300))
               then Inr (editor_wrappingColumn c)
               else Inr (JNum (Fin 80)))"
  using positive_truthy[of coerce "editor_wrappingColumn c"]
  by (auto simp: chosenColumn_def or_else_def js_and_def Let_def split: sum.splits)

lemma index0_fails: "index0 v = Inl e \<longleftrightarrow> (v = JUndefined \<or> v = JNull) \<and> e = TypeError"
  by (cases v rule: index0.cases) auto

lemma chosenColumn_fails:
  "chosenColumn coerce c = Inl e \<longleftrightarrow>
     \<not> ToBoolean (rewrap_wrappingColumn c)
     \<and> (editor_rulers c = JUndefined \<or> editor_rulers c = JNull) \<and> e = TypeError"
  by (auto simp: chosenColumn_cases index0_fails split: sum.splits)

lemma getOptions_Inr:
  "getOptionsFromEnvironment coerce c editor = Inr (opts, warned) \<longleftrightarrow>
     (\<exists>v. chosenColumn coerce c = Inr v
        \<and> opts = \<lparr> wrappingColumn = fst (sanitizeColumn coerce v),
                     tabSize = fst (getTabSize coerce editor (fst (sanitizeColumn coerce v))),
                     doubleSentenceSpacing = rewrap_doubleSentenceSpacing c \<rparr>
        \<and> warned = snd (sanitizeColumn coerce v)
                     @ snd (getTabSize coerce editor (fst (sanitizeColumn coerce v))))"
  by (auto simp: getOptionsFromEnvironment_def getWrappingColumn_def split: sum.splits prod.splits)

lemma getOptions_Inl:
  "getOptionsFromEnvironment coerce c editor = Inl e \<longleftrightarrow> chosenColumn coerce c = Inl e"
  by (auto simp: getOptionsFromEnvironment_def getWrappingColumn_def split: sum.splits prod.splits)

lemma resolution_returns_when_rulers_indexable:
  assumes "ToBoolean (rewrap_wrappingColumn c)
    \<or> (editor_rulers c \<noteq> JUndefined \<and> editor_rulers c \<noteq> JNull)"
  shows "\<exists>opts warned. getOptionsFromEnvironment coerce c editor = Inr (opts, warned)
    \<and> isPositiveInteger (wrappingColumn opts) \<and> isPositiveInteger (tabSize opts)"
proof -
  have "\<forall>e. chosenColumn coerce c \<noteq> Inl e"
    using assms by (auto simp: chosenColumn_fails)
  then obtain v where v: "chosenColumn coerce c = Inr v"
    by (cases "chosenColumn coerce c") auto
  let ?w = "fst (sanitizeColumn coerce v)"
  let ?opts = "\<lparr> wrappingColumn = ?w, tabSize = fst (getTabSize coerce editor ?w),
                  doubleSentenceSpacing = rewrap_doubleSentenceSpacing c \<rparr>"
  have "getOptionsFromEnvironment coerce c editor
          = Inr (?opts, snd (sanitizeColumn coerce v) @ snd (getTabSize coerce editor ?w))"
    using v by (simp add: getOptions_Inr)
  moreover have "isPositiveInteger (wrappingColumn ?opts)"
    by (simp add: fst_sanitizeColumn)
  moreover have "isPositiveInteger (tabSize ?opts)"
    by (simp add: fst_getTabSize)
  ultimately show ?thesis
    by blast
qed

subsection \<open>Claims\<close>

text \<open>
  C1. Resolution does not return on every settings input: when the extension's column is
  falsy and the rulers setting is \<open>undefined\<close> or \<open>null\<close>, reading \<open>rulers[0]\<close> at
  line 177 throws a \<open>TypeError\<close> and no options are returned.
\<close>

theorem C1_missing_rulers_throw:
  assumes "\<not> ToBoolean (rewrap_wrappingColumn c)"
    and "editor_rulers c = JUndefined \<or> editor_rulers c = JNull"
  shows "getOptionsFromEnvironment coerce c editor = Inl TypeError"
  using assms by (simp add: getOptions_Inl chosenColumn_fails)

theorem C1_witness:
  "getOptionsFromEnvironment noCoerce
     \<lparr> rewrap_wrappingColumn = JUndefined, rewrap_doubleSentenceSpacing = JBool False,
       editor_rulers = JNull, editor_wrappingColumn = JNum (Fin 300) \<rparr>
     exampleEditor = Inl TypeError
   \<and> getOptionsFromEnvironment noCoerce
     \<lparr> rewrap_wrappingColumn = JNum (Fin 0), rewrap_doubleSentenceSpacing = JBool False,
       editor_rulers = JUndefined, editor_wrappingColumn = JNum (Fin 300) \<rparr>
     exampleEditor = Inl TypeError"
  using C1_missing_rulers_throw
          [of "\<lparr> rewrap_wrappingColumn = JUndefined, rewrap_doubleSentenceSpacing = JBool False,
                 editor_rulers = JNull, editor_wrappingColumn = JNum (Fin 300) \<rparr>"
              noCoerce exampleEditor]
        C1_missing_rulers_throw
          [of "\<lparr> rewrap_wrappingColumn = JNum (Fin 0), rewrap_doubleSentenceSpacing = JBool False,
                 editor_rulers = JUndefined, editor_wrappingColumn = JNum (Fin 300) \<rparr>"
              noCoerce exampleEditor]
  by simp

text \<open>
  C2, as amended. Whenever the rulers setting is present, the column chosen before
  sanitization is the first truthy value among the extension's setting, the first ruler
  and the editor's column when that compares strictly between 0 and 300, and 80 when there
  is none. Both examples of the specification resolve as it says, to 80 and to 100.
\<close>

theorem C2_first_truthy_column_wins:
  "(editor_rulers c \<noteq> JUndefined \<and> editor_rulers c \<noteq> JNull \<longrightarrow>
      (\<exists>firstRuler. index0 (editor_rulers c) = Inr firstRuler
         \<and> chosenColumn coerce c =
             Inr (if ToBoolean (rewrap_wrappingColumn c) then rewrap_wrappingColumn c
                  else if ToBoolean firstRuler then firstRuler
                  else if js_less coerce (JNum (Fin 0)) (editor_wrappingColumn c)
                        \<and> js_less coerce (editor_wrappingColumn c) (JNum (Fin 300))
                  then editor_wrappingColumn c
                  else JNum (Fin 80))))
   \<and> getWrappingColumn coerce
        \<lparr> rewrap_wrappingColumn = JUndefined, rewrap_doubleSentenceSpacing = d,
          editor_rulers = JArr [], editor_wrappingColumn = JNum (Fin 300) \<rparr>
      = Inr (JNum (Fin 80), [])
   \<and> getWrappingColumn coerce
        \<lparr> rewrap_wrappingColumn = JNum (Fin 100), rewrap_doubleSentenceSpacing = d,
          editor_rulers = JArr [JNum (Fin 72)], editor_wrappingColumn = editorColumn \<rparr>
      = Inr (JNum (Fin 100), [])"
proof (intro conjI impI)
  assume present: "editor_rulers c \<noteq> JUndefined \<and> editor_rulers c \<noteq> JNull"
  then have "\<forall>e. index0 (editor_rulers c) \<noteq> Inl e"
    by (simp add: index0_fails)
  then obtain firstRuler where first: "index0 (editor_rulers c) = Inr firstRuler"
    by (cases "index0 (editor_rulers c)") auto
  then have "chosenColumn coerce c =
             Inr (if ToBoolean (rewrap_wrappingColumn c) then rewrap_wrappingColumn c
                  else if ToBoolean firstRuler then firstRuler
                  else if js_less coerce (JNum (Fin 0)) (editor_wrappingColumn c)
                        \<and> js_less coerce (editor_wrappingColumn c) (JNum (Fin 300))
                  then editor_wrappingColumn c
                  else JNum (Fin 80))"
    by (simp add: chosenColumn_cases)
  with first show "\<exists>firstRuler. index0 (editor_rulers c) = Inr firstRuler
         \<and> chosenColumn coerce c =
             Inr (if ToBoolean (rewrap_wrappingColumn c) then rewrap_wrappingColumn c
                  else if ToBoolean firstRuler then firstRuler
                  else if js_less coerce (JNum (Fin 0)) (editor_wrappingColumn c)
                        \<and> js_less coerce (editor_wrappingColumn c) (JNum (Fin 300))
                  then editor_wrappingColumn c
                  else JNum (Fin 80))"
    by blast
next
  show "getWrappingColumn coerce
        \<lparr> rewrap_wrappingColumn = JUndefined, rewrap_doubleSentenceSpacing = d,
          editor_rulers = JArr [], editor_wrappingColumn = JNum (Fin 300) \<rparr>
      = Inr (JNum (Fin 80), [])"
    by (simp add: getWrappingColumn_def chosenColumn_cases sanitizeColumn_def js_less_def
          js_greater_def)
next
  show "getWrappingColumn coerce
        \<lparr> rewrap_wrappingColumn = JNum (Fin 100), rewrap_doubleSentenceSpacing = d,
          editor_rulers = JArr [JNum (Fin 72)], editor_wrappingColumn = editorColumn \<rparr>
      = Inr (JNum (Fin 100), [])"
    by (simp add: getWrappingColumn_def chosenColumn_cases sanitizeColumn_def js_less_def
          js_greater_def)
qed

theorem C2_witness:
  "JArr [JNull, JNum (Fin 72)] \<noteq> JUndefined \<and> JArr [JNull, JNum (Fin 72)] \<noteq> JNull
   \<and> chosenColumn noCoerce
       \<lparr> rewrap_wrappingColumn = JNum NaN, rewrap_doubleSentenceSpacing = JBool False,
         editor_rulers = JArr [JNull, JNum (Fin 72)],
         editor_wrappingColumn = JNum (Fin 132) \<rparr>
     = Inr (JNum (Fin 132))"
  using C2_first_truthy_column_wins
          [of "\<lparr> rewrap_wrappingColumn = JNum NaN, rewrap_doubleSentenceSpacing = JBool False,
                 editor_rulers = JArr [JNull, JNum (Fin 72)],
                 editor_wrappingColumn = JNum (Fin 132) \<rparr>"
              noCoerce]
  by (auto simp: js_less_def)

text \<open>
  C2 as stated fails: an extension column of 0 is defined, yet the first ruler is chosen,
  and the resolved column is 72.
\<close>

theorem C2_counterexample:
  "firstDefinedColumn noCoerce
     \<lparr> rewrap_wrappingColumn = JNum (Fin 0), rewrap_doubleSentenceSpacing = JUndefined,
       editor_rulers = JArr [JNum (Fin 72)], editor_wrappingColumn = JNum (Fin 300) \<rparr>
   = JNum (Fin 0)
   \<and> chosenColumn noCoerce
     \<lparr> rewrap_wrappingColumn = JNum (Fin 0), rewrap_doubleSentenceSpacing = JUndefined,
       editor_rulers = JArr [JNum (Fin 72)], editor_wrappingColumn = JNum (Fin 300) \<rparr>
   = Inr (JNum (Fin 72))
   \<and> getWrappingColumn noCoerce
     \<lparr> rewrap_wrappingColumn = JNum (Fin 0), rewrap_doubleSentenceSpacing = JUndefined,
       editor_rulers = JArr [JNum (Fin 72)], editor_wrappingColumn = JNum (Fin 300) \<rparr>
   = Inr (JNum (Fin 72), [])"
  by (simp add: firstDefinedColumn_def getWrappingColumn_def chosenColumn_def or_else_def
        sanitizeColumn_def js_less_def js_greater_def)

text \<open>
  C3. Whenever resolution returns, the wrapping column is a positive integer: the value
  chosen by precedence if that is a positive integer, also above 120, and 80 otherwise.
\<close>

theorem C3_wrapping_column_sanitized:
  assumes "getOptionsFromEnvironment coerce c editor = Inr (opts, warned)"
  shows "isPositiveInteger (wrappingColumn opts)
    \<and> (\<exists>v. chosenColumn coerce c = Inr v
          \<and> wrappingColumn opts = (if isPositiveInteger v then v else JNum (Fin 80)))"
proof -
  from assms obtain v where v: "chosenColumn coerce c = Inr v"
    and w: "wrappingColumn opts = fst (sanitizeColumn coerce v)"
    by (auto simp: getOptions_Inr)
  from w have eq: "wrappingColumn opts = (if isPositiveInteger v then v else JNum (Fin 80))"
    by (simp only: fst_sanitizeColumn)
  then have "isPositiveInteger (wrappingColumn opts)"
    by simp
  with v eq show ?thesis
    by blast
qed

theorem C3_witness:
  "getOptionsFromEnvironment noCoerce
     \<lparr> rewrap_wrappingColumn = JNum (Fin 200), rewrap_doubleSentenceSpacing = JBool True,
       editor_rulers = JArr [], editor_wrappingColumn = JNum (Fin 300) \<rparr>
     exampleEditor
   = Inr (\<lparr> wrappingColumn = JNum (Fin 200), tabSize = JNum (Fin 4),
             doubleSentenceSpacing = JBool True \<rparr>,
          [WarnLargeWrappingColumn (JNum (Fin 200))])
   \<and> isPositiveInteger (JNum (Fin 200))
   \<and> (\<exists>v. chosenColumn noCoerce
             \<lparr> rewrap_wrappingColumn = JNum (Fin 200),
               rewrap_doubleSentenceSpacing = JBool True,
               editor_rulers = JArr [], editor_wrappingColumn = JNum (Fin 300) \<rparr> = Inr v
          \<and> JNum (Fin 200) = (if isPositiveInteger v then v else JNum (Fin 80)))"
proof -
  have run: "getOptionsFromEnvironment noCoerce
     \<lparr> rewrap_wrappingColumn = JNum (Fin 200), rewrap_doubleSentenceSpacing = JBool True,
       editor_rulers = JArr [], editor_wrappingColumn = JNum (Fin 300) \<rparr>
     exampleEditor
   = Inr (\<lparr> wrappingColumn = JNum (Fin 200), tabSize = JNum (Fin 4),
             doubleSentenceSpacing = JBool True \<rparr>,
          [WarnLargeWrappingColumn (JNum (Fin 200))])"
    by (simp add: getOptionsFromEnvironment_def getWrappingColumn_def chosenColumn_def
          or_else_def sanitizeColumn_def getTabSize_def exampleEditor_def js_less_def
          js_greater_def js_half_def)
  show ?thesis
    using run C3_wrapping_column_sanitized [OF run] by simp
qed

text \<open>
  C4. The resolved tab size is the editor's value when that is a positive integer and 4
  otherwise, so 4 for a tab size of 0; the wrapping column it is compared with, and so the
  warning about a tab size above half of it, has no influence on the value.
\<close>

theorem C4_tab_size_sanitized:
  "fst (getTabSize coerce editor wc) =
     (if isPositiveInteger (options_tabSize editor) then options_tabSize editor
      else JNum (Fin 4))
   \<and> (getOptionsFromEnvironment coerce c editor = Inr (opts, warned) \<longrightarrow>
        tabSize opts =
          (if isPositiveInteger (options_tabSize editor) then options_tabSize editor
           else JNum (Fin 4)))
   \<and> fst (getTabSize coerce (editor \<lparr> options_tabSize := JNum (Fin 0) \<rparr>) wc) = JNum (Fin 4)
   \<and> (js_greater coerce (fst (getTabSize coerce editor wc)) (js_half coerce wc) \<longrightarrow>
        getTabSize coerce editor wc =
          (fst (getTabSize coerce editor wc),
           (if isPositiveInteger (options_tabSize editor) then []
            else [WarnInvalidTabSize (options_tabSize editor)])
           @ [WarnTabSizeAgainstColumn (fst (getTabSize coerce editor wc)) wc]))"
proof (intro conjI impI)
  show "fst (getTabSize coerce editor wc) =
     (if isPositiveInteger (options_tabSize editor) then options_tabSize editor
      else JNum (Fin 4))"
    by (rule fst_getTabSize)
next
  assume "getOptionsFromEnvironment coerce c editor = Inr (opts, warned)"
  then show "tabSize opts =
          (if isPositiveInteger (options_tabSize editor) then options_tabSize editor
           else JNum (Fin 4))"
    by (auto simp: getOptions_Inr fst_getTabSize)
next
  show "fst (getTabSize coerce (editor \<lparr> options_tabSize := JNum (Fin 0) \<rparr>) wc) = JNum (Fin 4)"
    by (simp add: fst_getTabSize)
next
  assume "js_greater coerce (fst (getTabSize coerce editor wc)) (js_half coerce wc)"
  then show "getTabSize coerce editor wc =
          (fst (getTabSize coerce editor wc),
           (if isPositiveInteger (options_tabSize editor) then []
            else [WarnInvalidTabSize (options_tabSize editor)])
           @ [WarnTabSizeAgainstColumn (fst (getTabSize coerce editor wc)) wc])"
    using sanitize_guard[of "options_tabSize editor" coerce]
    by (auto simp: getTabSize_def Let_def split: prod.splits if_splits)
qed

theorem C4_witness:
  "getTabSize noCoerce (exampleEditor \<lparr> options_tabSize := JNum (Fin 8) \<rparr>) (JNum (Fin 6))
   = (JNum (Fin 8), [WarnTabSizeAgainstColumn (JNum (Fin 8)) (JNum (Fin 6))])
   \<and> fst (getTabSize noCoerce (exampleEditor \<lparr> options_tabSize := JNum (Fin 0) \<rparr>)
            (JNum (Fin 80))) = JNum (Fin 4)
   \<and> fst (getTabSize noCoerce (exampleEditor \<lparr> options_tabSize := JStr ''auto'' \<rparr>)
            (JNum (Fin 80))) = JNum (Fin 4)
   \<and> getOptionsFromEnvironment noCoerce
        \<lparr> rewrap_wrappingColumn = JNum (Fin 72), rewrap_doubleSentenceSpacing = JBool False,
          editor_rulers = JArr [], editor_wrappingColumn = JNum (Fin 300) \<rparr>
        (exampleEditor \<lparr> options_tabSize := JNum (Fin 0) \<rparr>)
      = Inr (\<lparr> wrappingColumn = JNum (Fin 72), tabSize = JNum (Fin 4),
                doubleSentenceSpacing = JBool False \<rparr>,
             [WarnInvalidTabSize (JNum (Fin 0))])
   \<and> tabSize \<lparr> wrappingColumn = JNum (Fin 72), tabSize = JNum (Fin 4),
                doubleSentenceSpacing = JBool False \<rparr> = JNum (Fin 4)"
proof -
  have run: "getOptionsFromEnvironment noCoerce
        \<lparr> rewrap_wrappingColumn = JNum (Fin 72), rewrap_doubleSentenceSpacing = JBool False,
          editor_rulers = JArr [], editor_wrappingColumn = JNum (Fin 300) \<rparr>
        (exampleEditor \<lparr> options_tabSize := JNum (Fin 0) \<rparr>)
      = Inr (\<lparr> wrappingColumn = JNum (Fin 72), tabSize = JNum (Fin 4),
                doubleSentenceSpacing = JBool False \<rparr>,
             [WarnInvalidTabSize (JNum (Fin 0))])"
    by (simp add: getOptionsFromEnvironment_def getWrappingColumn_def chosenColumn_def
          or_else_def sanitizeColumn_def getTabSize_def exampleEditor_def js_less_def
          js_greater_def js_half_def)
  note zero = C4_tab_size_sanitized
    [of noCoerce "exampleEditor \<lparr> options_tabSize := JNum (Fin 0) \<rparr>" "JNum (Fin 80)"
        "\<lparr> rewrap_wrappingColumn = JNum (Fin 72), rewrap_doubleSentenceSpacing = JBool False,
          editor_rulers = JArr [], editor_wrappingColumn = JNum (Fin 300) \<rparr>"
        "\<lparr> wrappingColumn = JNum (Fin 72), tabSize = JNum (Fin 4),
          doubleSentenceSpacing = JBool False \<rparr>"
        "[WarnInvalidTabSize (JNum (Fin 0))]"]
  from zero run
  have resolved: "tabSize \<lparr> wrappingColumn = JNum (Fin 72), tabSize = JNum (Fin 4),
                doubleSentenceSpacing = JBool False \<rparr> = JNum (Fin 4)"
    by simp
  note large = C4_tab_size_sanitized
    [of noCoerce "exampleEditor \<lparr> options_tabSize := JNum (Fin 8) \<rparr>" "JNum (Fin 6)"]
  from large
  have kept: "fst (getTabSize noCoerce (exampleEditor \<lparr> options_tabSize := JNum (Fin 8) \<rparr>)
                 (JNum (Fin 6))) = JNum (Fin 8)"
    by simp
  have above: "js_greater noCoerce (JNum (Fin 8)) (js_half noCoerce (JNum (Fin 6)))"
    by (simp add: js_greater_def js_half_def)
  from large kept above
  have "getTabSize noCoerce (exampleEditor \<lparr> options_tabSize := JNum (Fin 8) \<rparr>) (JNum (Fin 6))
        = (JNum (Fin 8), [WarnTabSizeAgainstColumn (JNum (Fin 8)) (JNum (Fin 6))])"
    by simp
  moreover
  from zero
  have "fst (getTabSize noCoerce (exampleEditor \<lparr> options_tabSize := JNum (Fin 0) \<rparr>)
               (JNum (Fin 80))) = JNum (Fin 4)"
    by simp
  moreover
  from C4_tab_size_sanitized
    [of noCoerce "exampleEditor \<lparr> options_tabSize := JStr ''auto'' \<rparr>" "JNum (Fin 80)"]
  have "fst (getTabSize noCoerce (exampleEditor \<lparr> options_tabSize := JStr ''auto'' \<rparr>)
               (JNum (Fin 80))) = JNum (Fin 4)"
    by simp
  ultimately show ?thesis
    using run resolved by simp
qed

text \<open>
  C5. With the settings lookup returning the declared default \<open>false\<close> for an absent
  \<open>doubleSentenceSpacing\<close> and the user's value otherwise, the resolved option is
  \<open>false\<close> when the setting is absent and the setting's boolean, unchanged, when it is
  present: resolution copies what the lookup returned.
\<close>

theorem C5_double_sentence_spacing_default_and_passthrough:
  assumes "rewrap_doubleSentenceSpacing c = lookup_doubleSentenceSpacing setting"
    and "getOptionsFromEnvironment coerce c editor = Inr (opts, warned)"
  shows "doubleSentenceSpacing opts = rewrap_doubleSentenceSpacing c
    \<and> (setting = None \<longrightarrow> doubleSentenceSpacing opts = JBool False)
    \<and> (setting = Some (JBool b) \<longrightarrow> doubleSentenceSpacing opts = JBool b)"
  using assms by (auto simp: getOptions_Inr lookup_doubleSentenceSpacing_def)

theorem C5_witness:
  "getOptionsFromEnvironment noCoerce
     \<lparr> rewrap_wrappingColumn = JNum (Fin 72),
       rewrap_doubleSentenceSpacing = lookup_doubleSentenceSpacing None,
       editor_rulers = JArr [], editor_wrappingColumn = JNum (Fin 300) \<rparr>
     exampleEditor
   = Inr (\<lparr> wrappingColumn = JNum (Fin 72), tabSize = JNum (Fin 4),
             doubleSentenceSpacing = JBool False \<rparr>, [])
   \<and> getOptionsFromEnvironment noCoerce
     \<lparr> rewrap_wrappingColumn = JNum (Fin 72),
       rewrap_doubleSentenceSpacing = lookup_doubleSentenceSpacing (Some (JBool True)),
       editor_rulers = JArr [], editor_wrappingColumn = JNum (Fin 300) \<rparr>
     exampleEditor
   = Inr (\<lparr> wrappingColumn = JNum (Fin 72), tabSize = JNum (Fin 4),
             doubleSentenceSpacing = JBool True \<rparr>, [])
   \<and> doubleSentenceSpacing
        \<lparr> wrappingColumn = JNum (Fin 72), tabSize = JNum (Fin 4),
          doubleSentenceSpacing = JBool False \<rparr> = JBool False
   \<and> doubleSentenceSpacing
        \<lparr> wrappingColumn = JNum (Fin 72), tabSize = JNum (Fin 4),
          doubleSentenceSpacing = JBool True \<rparr> = JBool True"
proof -
  have absent: "getOptionsFromEnvironment noCoerce
     \<lparr> rewrap_wrappingColumn = JNum (Fin 72),
       rewrap_doubleSentenceSpacing = lookup_doubleSentenceSpacing None,
       editor_rulers = JArr [], editor_wrappingColumn = JNum (Fin 300) \<rparr>
     exampleEditor
   = Inr (\<lparr> wrappingColumn = JNum (Fin 72), tabSize = JNum (Fin 4),
             doubleSentenceSpacing = JBool False \<rparr>, [])"
    by (simp add: getOptionsFromEnvironment_def getWrappingColumn_def chosenColumn_def
          or_else_def sanitizeColumn_def getTabSize_def exampleEditor_def js_less_def
          js_greater_def js_half_def lookup_doubleSentenceSpacing_def)
  have present: "getOptionsFromEnvironment noCoerce
     \<lparr> rewrap_wrappingColumn = JNum (Fin 72),
       rewrap_doubleSentenceSpacing = lookup_doubleSentenceSpacing (Some (JBool True)),
       editor_rulers = JArr [], editor_wrappingColumn = JNum (Fin 300) \<rparr>
     exampleEditor
   = Inr (\<lparr> wrappingColumn = JNum (Fin 72), tabSize = JNum (Fin 4),
             doubleSentenceSpacing = JBool True \<rparr>, [])"
    by (simp add: getOptionsFromEnvironment_def getWrappingColumn_def chosenColumn_def
          or_else_def sanitizeColumn_def getTabSize_def exampleEditor_def js_less_def
          js_greater_def js_half_def lookup_doubleSentenceSpacing_def)
  from C5_double_sentence_spacing_default_and_passthrough [OF _ absent, of None]
  have "doubleSentenceSpacing
        \<lparr> wrappingColumn = JNum (Fin 72), tabSize = JNum (Fin 4),
          doubleSentenceSpacing = JBool False \<rparr> = JBool False"
    by simp
  moreover
  from C5_double_sentence_spacing_default_and_passthrough
         [OF _ present, of "Some (JBool True)" True]
  have "doubleSentenceSpacing
        \<lparr> wrappingColumn = JNum (Fin 72), tabSize = JNum (Fin 4),
          doubleSentenceSpacing = JBool True \<rparr> = JBool True"
    by simp
  ultimately show ?thesis
    using absent present by simp
qed

section \<open>Properties of the edit pipeline\<close>

subsection \<open>Auxiliary facts\<close>

lemma mapE_first_failure:
  "\<forall>b \<in> set before. \<exists>r. f b = Inr r \<Longrightarrow> f s = Inl e \<Longrightarrow>
     mapE f (before @ s # after) = Inl e"
  by (induction before) (auto simp: bindE_def)

lemma mapE_all_return: "map f xs = map Inr ys \<Longrightarrow> mapE f xs = Inr ys"
  by (induction xs arbitrary: ys) (auto simp: bindE_def)

lemma Number_MAX_VALUE_large: "10 < Number_MAX_VALUE"
  by (simp add: Number_MAX_VALUE_def)



lemma wrapSomething_threw:
  "beforeEdit m editor options = Inl e \<Longrightarrow>
     wrapSomething m h editor options = \<lparr> settled = Inl e, final = editor, trace = [] \<rparr>"
  by (simp add: wrapSomething_def)

lemma wrapSomething_callback_threw:
  "beforeEdit m editor options = Inr (edits, newSelections) \<Longrightarrow>
   applyEdits h edits (document editor) [] = Inl e \<Longrightarrow>
     wrapSomething m h editor options = \<lparr> settled = Inl e, final = editor, trace = [] \<rparr>"
  by (simp add: wrapSomething_def)

lemma wrapSomething_rejected:
  "beforeEdit m editor options = Inr (edits, newSelections) \<Longrightarrow>
   applyEdits h edits (document editor) [] = Inr submitted \<Longrightarrow>
   edit h (document editor) submitted = (Inl e, document') \<Longrightarrow>
     wrapSomething m h editor options =
       \<lparr> settled = Inl e, final = editor \<lparr> document := document' \<rparr>,
         trace = [EditSubmitted submitted, EditRejected e] \<rparr>"
  by (simp add: wrapSomething_def afterEdit_def Let_def)

lemma wrapSomething_resolved:
  "beforeEdit m editor options = Inr (edits, newSelections) \<Longrightarrow>
   applyEdits h edits (document editor) [] = Inr submitted \<Longrightarrow>
   edit h (document editor) submitted = (Inr ok, document') \<Longrightarrow>
     wrapSomething m h editor options =
       \<lparr> settled = Inr (),
         final = editor \<lparr> document := document', selections := newSelections \<rparr>,
         trace = [EditSubmitted submitted, EditResolved ok,
                  SelectionsAssigned newSelections] \<rparr>"
  by (simp add: wrapSomething_def afterEdit_def Let_def)

subsection \<open>Claims\<close>

text \<open>
  C6, as amended. When the wrapper throws on a selected section, the first such exception
  ends edit synthesis and no edits are returned for any section; when it returns on every
  selected section, the edits are its results, one per section and in the sections' order.
\<close>

theorem C6_failing_section_aborts_synthesis:
  assumes "findSections dp documentLines (tabSize options) = Inr sections"
    and "sectionsInSelections m (primary sections) (secondary sections) sels = Inr sectionsToEdit"
  shows "(sectionsToEdit = before @ s # after
            \<and> (\<forall>b \<in> set before. \<exists>ed. editSection dp options b = Inr ed)
            \<and> editSection dp options s = Inl e
          \<longrightarrow> getEditsAndSelections m dp documentLines sels options = Inl e)
    \<and> (map (editSection dp options) sectionsToEdit = map Inr edits
          \<longrightarrow> getEditsAndSelections m dp documentLines sels options
                = bindE (adjustSelections m documentLines sels edits)
                    (\<lambda>adjustedSelections. Inr (edits, adjustedSelections)))"
proof (intro conjI impI)
  assume fails: "sectionsToEdit = before @ s # after
    \<and> (\<forall>b \<in> set before. \<exists>ed. editSection dp options b = Inr ed)
    \<and> editSection dp options s = Inl e"
  then have "mapE (editSection dp options) sectionsToEdit = Inl e"
    by (simp add: mapE_first_failure)
  with assms show "getEditsAndSelections m dp documentLines sels options = Inl e"
    by (simp add: getEditsAndSelections_def bindE_def)
next
  assume "map (editSection dp options) sectionsToEdit = map Inr edits"
  then have "mapE (editSection dp options) sectionsToEdit = Inr edits"
    by (rule mapE_all_return)
  with assms show "getEditsAndSelections m dp documentLines sels options
      = bindE (adjustSelections m documentLines sels edits)
          (\<lambda>adjustedSelections. Inr (edits, adjustedSelections))"
    by (simp add: getEditsAndSelections_def bindE_def)
qed

theorem C6_witness:
  "getEditsAndSelections brokenModules brokenProcessor
       [''// a short'', ''// comment'', ''code();''] [(2, 0)] exampleOptions
     = Inl (Thrown ''malformed section'')
   \<and> getEditsAndSelections exampleModules exampleProcessor
       [''// a short'', ''// comment'', ''code();''] [(2, 0)] exampleOptions
     = Inr ([\<lparr> startLine = 0, endLine = 1, lines = [''// a short comment''] \<rparr>], [(1, 0)])"
proof -
  have "getEditsAndSelections brokenModules brokenProcessor
       [''// a short'', ''// comment'', ''code();''] [(2, 0)] exampleOptions
     = Inl (Thrown ''malformed section'')"
    using C6_failing_section_aborts_synthesis
            [of brokenProcessor "[''// a short'', ''// comment'', ''code();'']" exampleOptions
                "\<lparr> primary = [(0, 0), (1, 1), (2, 2)], secondary = [] \<rparr>"
                brokenModules "[(2, 0)]" "[(0, 0), (1, 1), (2, 2)]"
                "[(0, 0)]" "(1, 1)" "[(2, 2)]" "Thrown ''malformed section''"]
    by (simp add: brokenProcessor_def brokenModules_def)
  moreover
  have "getEditsAndSelections exampleModules exampleProcessor
       [''// a short'', ''// comment'', ''code();''] [(2, 0)] exampleOptions
     = Inr ([\<lparr> startLine = 0, endLine = 1, lines = [''// a short comment''] \<rparr>], [(1, 0)])"
    using C6_failing_section_aborts_synthesis
            [of exampleProcessor "[''// a short'', ''// comment'', ''code();'']" exampleOptions
                "\<lparr> primary = [(0, 1)], secondary = [] \<rparr>"
                exampleModules "[(2, 0)]" "[(0, 1)]" _ _ _ _
                "[\<lparr> startLine = 0, endLine = 1, lines = [''// a short comment''] \<rparr>]"]
    by (simp add: exampleProcessor_def exampleModules_def bindE_def)
  ultimately show ?thesis
    by simp
qed

text \<open>
  C6 as stated fails: with three selected sections and a wrapper that throws on the second,
  skipping would leave the edits of the first and the third, yet synthesis returns none.
\<close>

theorem C6_counterexample:
  "synthesizeSkipping (editSection brokenProcessor exampleOptions) [(0, 0), (1, 1), (2, 2)]
     = [\<lparr> startLine = 0, endLine = 0, lines = [''wrapped''] \<rparr>,
        \<lparr> startLine = 2, endLine = 2, lines = [''wrapped''] \<rparr>]
   \<and> getEditsAndSelections brokenModules brokenProcessor
       [''// a short'', ''// comment'', ''code();''] [(2, 0)] exampleOptions
     = Inl (Thrown ''malformed section'')"
  by (simp add: synthesizeSkipping_def List.map_filter_simps brokenProcessor_def
        brokenModules_def getEditsAndSelections_def bindE_def)




text \<open>
  C8. When the options resolve, the command returns the promise of \<open>wrapSomething\<close> as it
  is: if that promise is rejected, the \<open>catch\<close> block has not run, nothing beyond the
  sanitization warnings is written to the console and no notification is shown.
\<close>

theorem C8_rejected_promise_escapes_catch:
  assumes "getOptionsFromEnvironment coerce c editor = Inr (options, warned)"
    and "settled (wrapSomething m h editor options) = Inl e"
  shows "result (rewrapComment coerce m h c editor) = ReturnedPromise (Inl e)
    \<and> console (rewrapComment coerce m h c editor) = warned
    \<and> shown (rewrapComment coerce m h c editor) = []"
  using assms by (simp add: rewrapComment_def Let_def)

theorem C8_witness:
  "rewrapComment noCoerce brokenModules refusingHost
     \<lparr> rewrap_wrappingColumn = JUndefined, rewrap_doubleSentenceSpacing = JUndefined,
       editor_rulers = JArr [], editor_wrappingColumn = JNum (Fin 300) \<rparr>
     exampleEditor
   = \<lparr> result = ReturnedPromise (Inl (Thrown ''malformed section'')),
       console = [], shown = [], editorAfter = exampleEditor, events = [] \<rparr>"
proof -
  let ?c = "\<lparr> rewrap_wrappingColumn = JUndefined, rewrap_doubleSentenceSpacing = JUndefined,
       editor_rulers = JArr [], editor_wrappingColumn = JNum (Fin 300) \<rparr>"
  let ?options = "\<lparr> wrappingColumn = JNum (Fin 80), tabSize = JNum (Fin 4),
       doubleSentenceSpacing = JUndefined \<rparr>"
  have resolved: "getOptionsFromEnvironment noCoerce ?c exampleEditor = Inr (?options, [])"
    by (simp add: getOptionsFromEnvironment_def getWrappingColumn_def chosenColumn_def
          or_else_def js_and_def sanitizeColumn_def getTabSize_def exampleEditor_def
          js_less_def js_greater_def js_half_def)
  have threw: "beforeEdit brokenModules exampleEditor ?options
      = Inl (Thrown ''malformed section'')"
    by (simp add: beforeEdit_def getEditsAndSelections_def bindE_def brokenModules_def
          brokenProcessor_def)
  then have run: "wrapSomething brokenModules refusingHost exampleEditor ?options
      = \<lparr> settled = Inl (Thrown ''malformed section''), final = exampleEditor, trace = [] \<rparr>"
    by (rule wrapSomething_threw)
  then have rejected: "settled (wrapSomething brokenModules refusingHost exampleEditor ?options)
      = Inl (Thrown ''malformed section'')"
    by simp
  from C8_rejected_promise_escapes_catch [OF resolved rejected] resolved run
  show ?thesis
    by (simp add: rewrapComment_def)
qed

text \<open>
  C9. In the events of a run of \<open>wrapSomething\<close>, an assignment of the selections is the
  last event and comes directly after the resolution of the submitted edit, and the
  selections of the editor are then the assigned ones; in a run without such a resolution
  the selections are never assigned and stay as they were.
\<close>

theorem C9_selections_assigned_after_edit_resolved:
  "(trace (wrapSomething m h editor options) = pre @ SelectionsAssigned s # post \<longrightarrow>
      (\<exists>submitted ok. pre = [EditSubmitted submitted, EditResolved ok])
      \<and> post = [] \<and> selections (final (wrapSomething m h editor options)) = s)
   \<and> ((\<forall>ok. EditResolved ok \<notin> set (trace (wrapSomething m h editor options))) \<longrightarrow>
      (\<forall>s. SelectionsAssigned s \<notin> set (trace (wrapSomething m h editor options)))
      \<and> selections (final (wrapSomething m h editor options)) = selections editor)"
proof (cases "beforeEdit m editor options")
  case (Inl e)
  then show ?thesis
    by (simp add: wrapSomething_threw)
next
  case (Inr planned)
  obtain edits newSelections where planned: "planned = (edits, newSelections)"
    by (cases planned)
  show ?thesis
  proof (cases "applyEdits h edits (document editor) []")
    case (Inl e)
    with Inr planned show ?thesis
      by (simp add: wrapSomething_callback_threw)
  next
    case recorded: (Inr submitted)
    obtain outcome document' where
      host: "edit h (document editor) submitted = (outcome, document')"
      by (cases "edit h (document editor) submitted")
    show ?thesis
    proof (cases outcome)
      case (Inl e)
      with Inr planned recorded host show ?thesis
        by (simp add: wrapSomething_rejected Cons_eq_append_conv)
    next
      case resolved: (Inr ok)
      with Inr planned recorded host show ?thesis
        by (auto simp: wrapSomething_resolved Cons_eq_append_conv)
    qed
  qed
qed

theorem C9_witness:
  "trace (wrapSomething exampleModules refusingHost exampleEditor exampleOptions)
     = [EditSubmitted [(RangeFromTo 0 0 1 10, ''// a short comment'')], EditResolved False]
       @ SelectionsAssigned [(1, 0)] # []
   \<and> selections (final (wrapSomething exampleModules refusingHost exampleEditor exampleOptions))
     = [(1, 0)]
   \<and> trace (wrapSomething brokenModules refusingHost exampleEditor exampleOptions) = []
   \<and> selections (final (wrapSomething brokenModules refusingHost exampleEditor exampleOptions))
     = selections exampleEditor"
proof -
  have threw: "beforeEdit brokenModules exampleEditor exampleOptions
      = Inl (Thrown ''malformed section'')"
    by (simp add: beforeEdit_def getEditsAndSelections_def bindE_def brokenModules_def
          brokenProcessor_def exampleOptions_def)
  have silent: "trace (wrapSomething brokenModules refusingHost exampleEditor exampleOptions) = []"
    using wrapSomething_threw [OF threw] by simp
  from C9_selections_assigned_after_edit_resolved
         [of brokenModules refusingHost exampleEditor exampleOptions] silent
  have untouched:
    "selections (final (wrapSomething brokenModules refusingHost exampleEditor exampleOptions))
       = selections exampleEditor"
    by simp
  have planned: "beforeEdit exampleModules exampleEditor exampleOptions
      = Inr ([\<lparr> startLine = 0, endLine = 1, lines = [''// a short comment''] \<rparr>], [(1, 0)])"
    by (simp add: beforeEdit_def getEditsAndSelections_def bindE_def exampleModules_def
          exampleProcessor_def)
  have submitted: "applyEdits refusingHost
      [\<lparr> startLine = 0, endLine = 1, lines = [''// a short comment''] \<rparr>]
      (document exampleEditor) [] = Inr [(RangeFromTo 0 0 1 10, ''// a short comment'')]"
    using Number_MAX_VALUE_large
    by (simp add: new_Range_def isBefore_def bindE_def replace_def refusingHost_def
          clampRange_def clampPosition_def exampleEditor_def lineCount_def lineAt_def)
  have host: "edit refusingHost (document exampleEditor)
      [(RangeFromTo 0 0 1 10, ''// a short comment'')] = (Inr False, document exampleEditor)"
    by (simp add: refusingHost_def)
  have run: "trace (wrapSomething exampleModules refusingHost exampleEditor exampleOptions)
     = [EditSubmitted [(RangeFromTo 0 0 1 10, ''// a short comment'')], EditResolved False]
       @ SelectionsAssigned [(1, 0)] # []"
    using wrapSomething_resolved [OF planned submitted host] by simp
  from C9_selections_assigned_after_edit_resolved
         [of exampleModules refusingHost exampleEditor exampleOptions
             "[EditSubmitted [(RangeFromTo 0 0 1 10, ''// a short comment'')], EditResolved False]"
             "[(1, 0)]" "[]"] run silent untouched
  show ?thesis
    by simp
qed

text \<open>
  C10. Once everything before the edit has returned, the batch has been recorded and the
  host has resolved the edit, with \<open>true\<close> or with \<open>false\<close>, the editor's selections are
  the precomputed ones and the promise of \<open>wrapSomething\<close> is fulfilled.
\<close>

theorem C10_selections_assigned_whatever_the_edit_resolved_with:
  assumes "beforeEdit m editor options = Inr (edits, newSelections)"
    and "applyEdits h edits (document editor) [] = Inr submitted"
    and "edit h (document editor) submitted = (Inr ok, document')"
  shows "selections (final (wrapSomething m h editor options)) = newSelections
    \<and> settled (wrapSomething m h editor options) = Inr ()
    \<and> trace (wrapSomething m h editor options)
        = [EditSubmitted submitted, EditResolved ok, SelectionsAssigned newSelections]"
  using wrapSomething_resolved [OF assms] by simp

theorem C10_witness:
  "edit refusingHost (document exampleEditor)
     [(RangeFromTo 0 0 1 10, ''// a short comment'')] = (Inr False, document exampleEditor)
   \<and> selections (final (wrapSomething exampleModules refusingHost exampleEditor exampleOptions))
     = [(1, 0)]
   \<and> settled (wrapSomething exampleModules refusingHost exampleEditor exampleOptions) = Inr ()"
proof -
  have planned: "beforeEdit exampleModules exampleEditor exampleOptions
      = Inr ([\<lparr> startLine = 0, endLine = 1, lines = [''// a short comment''] \<rparr>], [(1, 0)])"
    by (simp add: beforeEdit_def getEditsAndSelections_def bindE_def exampleModules_def
          exampleProcessor_def)
  have recorded: "applyEdits refusingHost
      [\<lparr> startLine = 0, endLine = 1, lines = [''// a short comment''] \<rparr>]
      (document exampleEditor) [] = Inr [(RangeFromTo 0 0 1 10, ''// a short comment'')]"
    using Number_MAX_VALUE_large
    by (simp add: new_Range_def isBefore_def bindE_def replace_def refusingHost_def
          clampRange_def clampPosition_def exampleEditor_def lineCount_def lineAt_def)
  have host: "edit refusingHost (document exampleEditor)
      [(RangeFromTo 0 0 1 10, ''// a short comment'')] = (Inr False, document exampleEditor)"
    by (simp add: refusingHost_def)
  from C10_selections_assigned_whatever_the_edit_resolved_with [OF planned recorded host] host
  show ?thesis
    by simp
qed

end
